theory Spec2Isabelle
  imports Complex_Main "HOL-Library.Sublist" "HOL-Library.AList" "HOL-Library.Code_Target_Nat"
begin

section \<open>Python strings\<close>

text \<open>
  A Python \<^verbatim>\<open>str\<close> is a sequence of Unicode code points. The scripts read Japanese and
  Korean text, so a character is modelled by its code point (a natural number) and a
  string by the list of its code points. \<open>u\<close> turns an ASCII literal into such a list.
\<close>

type_synonym ustr = "nat list"

definition u :: "string \<Rightarrow> ustr" where
  "u s = map of_char s"

text \<open>
  \<^verbatim>\<open>str.isspace\<close> on one character; \<^verbatim>\<open>str.strip()\<close> and the pattern \<^verbatim>\<open>\s\<close> of
  \<^verbatim>\<open>re\<close> on a \<^verbatim>\<open>str\<close> use the same table in CPython. It contains the ideographic space
  U+3000.
\<close>

definition py_isspace :: "nat \<Rightarrow> bool" where
  "py_isspace c \<longleftrightarrow>
     (9 \<le> c \<and> c \<le> 13) \<or> (28 \<le> c \<and> c \<le> 32) \<or> c = 133 \<or> c = 160 \<or> c = 5760 \<or>
     (8192 \<le> c \<and> c \<le> 8202) \<or> c = 8232 \<or> c = 8233 \<or> c = 8239 \<or> c = 8287 \<or>
     c = 12288"

text \<open>\<^verbatim>\<open>s.strip()\<close>\<close>

definition py_strip :: "ustr \<Rightarrow> ustr" where
  "py_strip s = rev (dropWhile py_isspace (rev (dropWhile py_isspace s)))"

text \<open>\<^verbatim>\<open>sub in s\<close>: \<open>sub\<close> occurs in \<open>s\<close> as a contiguous run.\<close>

fun py_in :: "ustr \<Rightarrow> ustr \<Rightarrow> bool" where
  "py_in sub [] = (sub = [])"
| "py_in sub (c # cs) = (prefix sub (c # cs) \<or> py_in sub cs)"


text \<open>
  \<^verbatim>\<open>s.split(sep)\<close> for a separator that is not empty (every call of the scripts passes a
  literal): the occurrences of \<open>sep\<close> are found from the left and do not overlap.
\<close>

fun py_split :: "ustr \<Rightarrow> ustr \<Rightarrow> ustr list" where
  "py_split sep [] = [[]]"
| "py_split sep (c # cs) =
     (if sep \<noteq> [] \<and> prefix sep (c # cs)
      then [] # py_split sep (drop (length sep - 1) cs)
      else (case py_split sep cs of
              [] \<Rightarrow> [[c]]
            | f # fs \<Rightarrow> (c # f) # fs))"

text \<open>\<^verbatim>\<open>s.split(sep, 1)\<close>: split at the first occurrence only.\<close>

fun py_split1 :: "ustr \<Rightarrow> ustr \<Rightarrow> ustr list" where
  "py_split1 sep [] = [[]]"
| "py_split1 sep (c # cs) =
     (if sep \<noteq> [] \<and> prefix sep (c # cs)
      then [[], drop (length sep - 1) cs]
      else (case py_split1 sep cs of
              [] \<Rightarrow> [[c]]
            | f # fs \<Rightarrow> (c # f) # fs))"

text \<open>\<^verbatim>\<open>sep.join(xs)\<close>\<close>

fun py_join :: "ustr \<Rightarrow> ustr list \<Rightarrow> ustr" where
  "py_join sep [] = []"
| "py_join sep [x] = x"
| "py_join sep (x # y # ys) = x @ sep @ py_join sep (y # ys)"

text \<open>\<^verbatim>\<open>re.sub(r'\s+', '', s)\<close>: every whitespace character is removed.\<close>

definition remove_whitespace :: "ustr \<Rightarrow> ustr" where
  "remove_whitespace s = filter (\<lambda>c. \<not> py_isspace c) s"



definition semicolon :: ustr where \<comment> \<open>\<^verbatim>\<open>';'\<close>\<close>
  "semicolon = [59]"


section \<open>Exceptions\<close>

datatype error = ValueError | OverflowError | KeyError | IndexError

section \<open>Integers: \<^verbatim>\<open>int(s)\<close> and formatting\<close>

text \<open>
  \<^verbatim>\<open>int(s)\<close> in base 10, as CPython reads a \<^verbatim>\<open>str\<close>: characters from 127 on are first
  mapped to ASCII (a space to \<^verbatim>\<open>' '\<close>, a Unicode decimal digit to its ASCII digit, anything
  else to \<^verbatim>\<open>'?'\<close>); then leading C whitespace, an optional sign, digits with single
  underscores between them, trailing C whitespace. \<open>decimal_zeros\<close> lists the code points
  of the digits zero of Unicode 14 (the table of CPython 3.11); each is followed by its
  digits one to nine. The limit on the number of digits that recent CPython versions put
  on the conversion (\<^verbatim>\<open>sys.set_int_max_str_digits\<close>) is a setting of the interpreter and
  is not modelled.
\<close>

definition decimal_zeros :: "nat list" where
  "decimal_zeros =
    [0x30, 0x660, 0x6F0, 0x7C0, 0x966, 0x9E6, 0xA66, 0xAE6, 0xB66, 0xBE6, 0xC66, 0xCE6,
     0xD66, 0xDE6, 0xE50, 0xED0, 0xF20, 0x1040, 0x1090, 0x17E0, 0x1810, 0x1946, 0x19D0,
     0x1A80, 0x1A90, 0x1B50, 0x1BB0, 0x1C40, 0x1C50, 0xA620, 0xA8D0, 0xA900, 0xA9D0,
     0xA9F0, 0xAA50, 0xABF0, 0xFF10, 0x104A0, 0x10D30, 0x11066, 0x110F0, 0x11136,
     0x111D0, 0x112F0, 0x11450, 0x114D0, 0x11650, 0x116C0, 0x11730, 0x118E0, 0x11950,
     0x11C50, 0x11D50, 0x11DA0, 0x16A60, 0x16AC0, 0x16B50, 0x1D7CE, 0x1D7D8, 0x1D7E2,
     0x1D7EC, 0x1D7F6, 0x1E140, 0x1E2F0, 0x1E950, 0x1FBF0]"

definition py_decimal :: "nat \<Rightarrow> nat option" where
  "py_decimal c =
     (case filter (\<lambda>z. z \<le> c \<and> c < z + 10) decimal_zeros of
        [] \<Rightarrow> None
      | z # _ \<Rightarrow> Some (c - z))"

definition to_ascii :: "nat \<Rightarrow> nat" where
  "to_ascii c =
     (if c < 127 then c
      else if py_isspace c then 32
      else (case py_decimal c of None \<Rightarrow> 63 | Some d \<Rightarrow> 48 + d))"

definition c_isspace :: "nat \<Rightarrow> bool" where
  "c_isspace c \<longleftrightarrow> c = 32 \<or> (9 \<le> c \<and> c \<le> 13)"

definition is_digit_or_underscore :: "nat \<Rightarrow> bool" where
  "is_digit_or_underscore c \<longleftrightarrow> (48 \<le> c \<and> c \<le> 57) \<or> c = 95"

text \<open>
  The scan over digits and underscores: \<open>prev\<close> is the character before, \<open>v\<close> the value
  so far. Two underscores in a row and an underscore at the end are refused.
\<close>

fun scan_digits :: "nat \<Rightarrow> int \<Rightarrow> ustr \<Rightarrow> int option" where
  "scan_digits prev v [] = (if prev = 95 then None else Some v)"
| "scan_digits prev v (c # cs) =
     (if c = 95 then (if prev = 95 then None else scan_digits c v cs)
      else scan_digits c (v * 10 + int (c - 48)) cs)"

definition py_int :: "ustr \<Rightarrow> int option" where
  "py_int s =
     (let t = dropWhile c_isspace (map to_ascii s);
          neg = (case t of [] \<Rightarrow> False | c # _ \<Rightarrow> c = 45);
          t' = (case t of [] \<Rightarrow> [] | c # r \<Rightarrow> if c = 43 \<or> c = 45 then r else t);
          body = takeWhile is_digit_or_underscore t';
          rest = dropWhile is_digit_or_underscore t'
      in if \<not> list_all c_isspace rest then None
         else (case body of
                 [] \<Rightarrow> None
               | c # _ \<Rightarrow>
                   if c = 95 then None
                   else map_option (\<lambda>v. if neg then - v else v) (scan_digits 0 0 body)))"

text \<open>\<^verbatim>\<open>str(n)\<close> for \<open>n \<ge> 0\<close>\<close>

fun digits_of :: "nat \<Rightarrow> ustr" where
  "digits_of n = (if n < 10 then [48 + n] else digits_of (n div 10) @ [48 + n mod 10])"

declare digits_of.simps [simp del]

text \<open>\<^verbatim>\<open>f"{i}"\<close>\<close>

definition py_str :: "int \<Rightarrow> ustr" where
  "py_str i = (if i < 0 then 45 # digits_of (nat (- i)) else digits_of (nat i))"

text \<open>
  \<^verbatim>\<open>f"{i:0wd}"\<close>: the zeros go between the sign and the digits, up to a width of \<open>w\<close>
  characters in all.
\<close>

definition py_format_0d :: "nat \<Rightarrow> int \<Rightarrow> ustr" where
  "py_format_0d w i =
     (let sign = (if i < 0 then [45] else []);
          d = digits_of (nat \<bar>i\<bar>)
      in sign @ replicate (w - length sign - length d) 48 @ d)"

section \<open>Floating point: \<^verbatim>\<open>int((frames / 30.0) * 1000)\<close>\<close>

text \<open>
  The source computes the milliseconds in IEEE 754 double precision. A finite double is
  modelled by a pair \<open>(m, e)\<close> of integers that stands for \<open>m * 2 ^ e\<close> (the sign is the
  sign of \<open>m\<close>; \<open>bit_length\<close> is Python's \<^verbatim>\<open>int.bit_length\<close>). \<open>round_ratio n d\<close> rounds the rational \<open>n / d\<close> (\<open>d > 0\<close>) to the nearest
  number with a 53-bit significand, ties to even, as the conversion from \<^verbatim>\<open>int\<close>, the
  division and the multiplication of doubles do. \<open>frames\<close> is an integer, so no
  intermediate result is subnormal. A result of magnitude \<open>2 ^ 1024\<close> or more does not
  exist as a finite double: the conversion of the integer raises \<^verbatim>\<open>OverflowError\<close>, and so
  does \<^verbatim>\<open>int\<close> on the infinite product.
\<close>

type_synonym double = "int \<times> int"

fun bit_length :: "nat \<Rightarrow> nat" where
  "bit_length n = (if n = 0 then 0 else Suc (bit_length (n div 2)))"

declare bit_length.simps [simp del]

definition round_half_even :: "int \<Rightarrow> int \<Rightarrow> int" where
  \<comment> \<open>the integer nearest to \<open>num / den\<close>, ties to even\<close>
  "round_half_even num den =
     (let q = num div den; r = num mod den
      in if 2 * r < den then q else if den < 2 * r then q + 1
         else if even q then q else q + 1)"

definition binary_exponent :: "int \<Rightarrow> int \<Rightarrow> int" where
  \<comment> \<open>for \<open>a > 0\<close> and \<open>d > 0\<close>, the \<open>e\<close> with \<open>2 ^ e \<le> a / d < 2 ^ (e + 1)\<close>\<close>
  "binary_exponent a d =
     (let k = int (bit_length (nat a)) - int (bit_length (nat d))
      in if (if 0 \<le> k then d * 2 ^ nat k \<le> a else d \<le> a * 2 ^ nat (- k))
         then k else k - 1)"

definition significand :: "int \<Rightarrow> int \<Rightarrow> int \<Rightarrow> int" where
  \<comment> \<open>\<open>a / d / 2 ^ s\<close>, rounded\<close>
  "significand a d s =
     (if s \<le> 0 then round_half_even (a * 2 ^ nat (- s)) d
      else round_half_even a (d * 2 ^ nat s))"

definition round_ratio :: "int \<Rightarrow> int \<Rightarrow> double" where
  "round_ratio n d =
     (if n = 0 then (0, 0)
      else (sgn n * significand \<bar>n\<bar> d (binary_exponent \<bar>n\<bar> d - 52),
            binary_exponent \<bar>n\<bar> d - 52))"

fun is_overflow :: "double \<Rightarrow> bool" where
  "is_overflow (m, e) = (if e < 0 then False else 2 ^ 1024 \<le> \<bar>m\<bar> * 2 ^ nat e)"

definition int_to_float :: "int \<Rightarrow> error + double" where
  "int_to_float n =
     (let x = round_ratio n 1 in if is_overflow x then Inl OverflowError else Inr x)"

fun scale :: "double \<Rightarrow> int \<Rightarrow> double" where
  "scale (m, e) k = (m, e + k)"

fun float_div :: "double \<Rightarrow> double \<Rightarrow> double" where
  \<comment> \<open>the divisor is not zero\<close>
  "float_div (m1, e1) (m2, e2) = scale (round_ratio (m1 * sgn m2) \<bar>m2\<bar>) (e1 - e2)"

fun float_mul :: "double \<Rightarrow> double \<Rightarrow> double" where
  "float_mul (m1, e1) (m2, e2) = scale (round_ratio (m1 * m2) 1) (e1 + e2)"

fun float_to_int :: "double \<Rightarrow> int" where
  \<comment> \<open>\<^verbatim>\<open>int(x)\<close> truncates towards zero\<close>
  "float_to_int (m, e) =
     (if 0 \<le> e then m * 2 ^ nat e else sgn m * (\<bar>m\<bar> div 2 ^ nat (- e)))"

definition milliseconds_of :: "int \<Rightarrow> error + int" where
  "milliseconds_of frames =
     (case int_to_float frames of
        Inl e \<Rightarrow> Inl e
      | Inr x \<Rightarrow>
          (let z = float_mul (float_div x (round_ratio 30 1)) (round_ratio 1000 1)
           in if is_overflow z then Inl OverflowError else Inr (float_to_int z)))"

section \<open>\<^verbatim>\<open>SBVConverter.convert_timecode\<close> (phase\_main\_do\_all.py)\<close>

definition convert_timecode :: "ustr \<Rightarrow> error + ustr" where
  "convert_timecode premiere_time =
     (let parts = py_split semicolon premiere_time
      in if length parts \<noteq> 4 then Inr premiere_time
         else (case py_int (parts ! 0) of None \<Rightarrow> Inl ValueError | Some hours \<Rightarrow>
              (case py_int (parts ! 1) of None \<Rightarrow> Inl ValueError | Some minutes \<Rightarrow>
              (case py_int (parts ! 2) of None \<Rightarrow> Inl ValueError | Some seconds \<Rightarrow>
              (case py_int (parts ! 3) of None \<Rightarrow> Inl ValueError | Some frames \<Rightarrow>
              (case milliseconds_of frames of
                 Inl e \<Rightarrow> Inl e
               | Inr milliseconds \<Rightarrow>
                   Inr (py_str hours @ [58] @ py_format_0d 2 minutes @ [58] @
                        py_format_0d 2 seconds @ [46] @ py_format_0d 3 milliseconds)))))))"

section \<open>\<^verbatim>\<open>DialogueParser\<close> (phase\_main\_do\_all.py)\<close>

text \<open>
  A Python \<^verbatim>\<open>dict\<close> is modelled by an association list in insertion order with distinct
  keys: \<open>AList.update k v\<close> replaces the value of a key that is present, where it stands,
  and appends a new key at the end, as the assignment \<^verbatim>\<open>d[k] = v\<close> does; \<open>map_of\<close> looks a
  key up, \<open>length\<close> is \<^verbatim>\<open>len\<close>.

  A dialogue is the dict \<^verbatim>\<open>{'character': ..., 'lines': {...}}\<close>; \<open>character\<close> is \<open>None\<close>
  as long as it holds Python's \<^verbatim>\<open>None\<close>.
\<close>

type_synonym ('k, 'v) dict = "('k \<times> 'v) list"

record dialogue =
  character :: "ustr option"
  lines :: "(ustr, ustr) dict"








section \<open>\<^verbatim>\<open>SBVConverter\<close> (phase\_main\_do\_all.py)\<close>

text \<open>
  A cue of the timeline is the dict \<^verbatim>\<open>{'start': ..., 'end': ..., 'texts': [...]}\<close>, an
  element of \<^verbatim>\<open>texts\<close> the dict \<^verbatim>\<open>{'speaker': ..., 'text': ...}\<close>. The fields are called
  \<open>cue_start\<close>, \<open>cue_end\<close>, \<open>texts\<close> and \<open>entry_speaker\<close>, \<open>entry_text\<close> here.
\<close>

record text_entry =
  entry_speaker :: ustr
  entry_text :: ustr

record cue =
  cue_start :: ustr
  cue_end :: ustr
  texts :: "text_entry list"

record sbv_converter =
  dialogue_data :: "dialogue list"
  dialogue_index_map :: "(ustr, nat) dict"
  sequence_data :: "cue list"
  missing_translations :: "(ustr, nat) dict"


definition list_get :: "'a list \<Rightarrow> nat \<Rightarrow> error + 'a" where
  "list_get xs i = (if i < length xs then Inr (xs ! i) else Inl IndexError)"




subsection \<open>\<^verbatim>\<open>parse_sequence_file\<close>\<close>





definition has_texts :: "cue option \<Rightarrow> bool" where
  \<comment> \<open>\<^verbatim>\<open>current_entry and current_entry.get('texts')\<close>\<close>
  "has_texts current_entry = (case current_entry of None \<Rightarrow> False | Some c \<Rightarrow> texts c \<noteq> [])"






subsection \<open>\<^verbatim>\<open>find_matching_dialogue\<close>\<close>

definition fallback_match :: "ustr \<Rightarrow> ustr \<Rightarrow> bool" where
  \<comment> \<open>\<^verbatim>\<open>normalized[:50] in key or key in normalized\<close>\<close>
  "fallback_match normalized key \<longleftrightarrow> py_in (take 50 normalized) key \<or> py_in key normalized"

text \<open>The loop \<^verbatim>\<open>for key, idx in self.dialogue_index_map.items()\<close>.\<close>

fun scan_index :: "dialogue list \<Rightarrow> ustr \<Rightarrow> (ustr, nat) dict \<Rightarrow> error + dialogue option" where
  "scan_index data normalized [] = Inr None"
| "scan_index data normalized ((key, idx) # rest) =
     (if fallback_match normalized key
      then (case list_get data idx of Inl e \<Rightarrow> Inl e | Inr d \<Rightarrow> Inr (Some d))
      else scan_index data normalized rest)"

definition find_matching_dialogue :: "sbv_converter \<Rightarrow> ustr \<Rightarrow> error + dialogue option" where
  "find_matching_dialogue self japanese_text =
     (let normalized = remove_whitespace japanese_text
      in case map_of (dialogue_index_map self) normalized of
           Some idx \<Rightarrow>
             (case list_get (dialogue_data self) idx of
                Inl e \<Rightarrow> Inl e
              | Inr d \<Rightarrow> Inr (Some d))
         | None \<Rightarrow> scan_index (dialogue_data self) normalized (dialogue_index_map self))"

subsection \<open>\<^verbatim>\<open>create_sbv_content\<close>\<close>

definition placeholder :: "ustr \<Rightarrow> ustr" where
  \<comment> \<open>the f-string with the Korean for ``no translation'' and \<^verbatim>\<open>japanese_text[:30]\<close>\<close>
  "placeholder japanese_text =
     [0x5B, 0xBC88, 0xC5ED, 0x20, 0xC5C6, 0xC74C, 0x3A, 0x20] @ take 30 japanese_text @
     [0x2E, 0x2E, 0x2E, 0x5D]"

text \<open>
  The inner loop \<^verbatim>\<open>for text_entry in entry['texts']\<close>, with \<^verbatim>\<open>caption_texts\<close> and
  \<^verbatim>\<open>missing_count\<close> as its state. A dialogue that is found is a dict with two keys, so it
  counts as true.
\<close>

fun caption_loop ::
  "sbv_converter \<Rightarrow> ustr \<Rightarrow> text_entry list \<Rightarrow> ustr list \<Rightarrow> nat \<Rightarrow> error + ustr list \<times> nat"
  where
  "caption_loop self language [] caption_texts missing_count =
     Inr (caption_texts, missing_count)"
| "caption_loop self language (e # rest) caption_texts missing_count =
     (case find_matching_dialogue self (entry_text e) of
        Inl err \<Rightarrow> Inl err
      | Inr (Some matched_dialogue) \<Rightarrow>
          (case map_of (lines matched_dialogue) language of
             Some t \<Rightarrow> caption_loop self language rest (caption_texts @ [t]) missing_count
           | None \<Rightarrow> caption_loop self language rest caption_texts missing_count)
      | Inr None \<Rightarrow>
          if language = u ''ja''
          then caption_loop self language rest (caption_texts @ [entry_text e]) missing_count
          else caption_loop self language rest
                 (caption_texts @ [placeholder (entry_text e)]) (missing_count + 1))"

text \<open>The outer loop \<^verbatim>\<open>for entry in self.sequence_data\<close>.\<close>

fun entries_loop ::
  "sbv_converter \<Rightarrow> ustr \<Rightarrow> cue list \<Rightarrow> ustr list \<Rightarrow> nat \<Rightarrow> error + ustr list \<times> nat"
  where
  "entries_loop self language [] sbv_lines missing_count = Inr (sbv_lines, missing_count)"
| "entries_loop self language (entry # rest) sbv_lines missing_count =
     (case caption_loop self language (texts entry) [] missing_count of
        Inl err \<Rightarrow> Inl err
      | Inr (caption_texts, count) \<Rightarrow>
          entries_loop self language rest
            (sbv_lines @ [cue_start entry @ [44] @ cue_end entry,
                          if caption_texts \<noteq> [] then py_join [10] caption_texts else [],
                          []])
            count)"

text \<open>
  \<open>create_sbv_content\<close> returns the text and the converter with the counter of the
  language stored in \<^verbatim>\<open>self.missing_translations\<close>.
\<close>

definition create_sbv_content :: "sbv_converter \<Rightarrow> ustr \<Rightarrow> error + ustr \<times> sbv_converter" where
  "create_sbv_content self language =
     (case entries_loop self language (sequence_data self) [] 0 of
        Inl err \<Rightarrow> Inl err
      | Inr (sbv_lines, missing_count) \<Rightarrow>
          Inr (py_join [10] sbv_lines,
               self\<lparr>missing_translations :=
                 AList.update language missing_count (missing_translations self)\<rparr>))"

section \<open>The copies in phase01\_data\_to\_json\_converter.py and phase02\_sequesce\_to\_sbv\_converter.py\<close>







section \<open>Notions used in the statements\<close>














section \<open>Properties of \<open>convert_timecode\<close>\<close>

lemma py_split_not_Nil: "py_split sep s \<noteq> []"
  by (induction sep s rule: py_split.induct) (auto split: list.splits)

lemma length_py_split_char: "length (py_split [c] s) = Suc (count_list s c)"
proof (induction s)
  case Nil
  then show ?case by simp
next
  case (Cons x xs)
  then show ?case
    using py_split_not_Nil [of "[c]" xs] by (auto split: list.splits)
qed

lemmas float_eval = milliseconds_of_def int_to_float_def round_ratio_def significand_def
  binary_exponent_def round_half_even_def bit_length.simps

lemma milliseconds_of_17: "milliseconds_of 17 = Inr 566"
  by (simp add: float_eval)

lemma milliseconds_of_15: "milliseconds_of 15 = Inr 500"
  by (simp add: float_eval)

lemma convert_timecode_24_17:
  "convert_timecode (u ''00;00;24;17'') = Inr (u ''0:00:24.566'')"
proof -
  have parts: "py_split semicolon (u ''00;00;24;17'') = [u ''00'', u ''00'', u ''24'', u ''17'']"
    by code_simp
  have ints: "py_int (u ''00'') = Some 0" "py_int (u ''24'') = Some 24"
    "py_int (u ''17'') = Some 17"
    by code_simp+
  have fmt: "py_str 0 = u ''0''" "py_format_0d 2 0 = u ''00''" "py_format_0d 2 24 = u ''24''"
    "py_format_0d 3 566 = u ''566''"
    by code_simp+
  have "convert_timecode (u ''00;00;24;17'') =
      Inr (u ''0'' @ [58] @ u ''00'' @ [58] @ u ''24'' @ [46] @ u ''566'')"
    by (simp add: convert_timecode_def parts ints fmt milliseconds_of_17)
  also have "u ''0'' @ [58] @ u ''00'' @ [58] @ u ''24'' @ [46] @ u ''566'' = u ''0:00:24.566''"
    by (simp add: u_def)
  finally show ?thesis .
qed

lemma convert_timecode_65_15:
  "convert_timecode (u ''00;01;05;15'') = Inr (u ''0:01:05.500'')"
proof -
  have parts: "py_split semicolon (u ''00;01;05;15'') = [u ''00'', u ''01'', u ''05'', u ''15'']"
    by code_simp
  have ints: "py_int (u ''00'') = Some 0" "py_int (u ''01'') = Some 1"
    "py_int (u ''05'') = Some 5" "py_int (u ''15'') = Some 15"
    by code_simp+
  have fmt: "py_str 0 = u ''0''" "py_format_0d 2 1 = u ''01''" "py_format_0d 2 5 = u ''05''"
    "py_format_0d 3 500 = u ''500''"
    by code_simp+
  have "convert_timecode (u ''00;01;05;15'') =
      Inr (u ''0'' @ [58] @ u ''01'' @ [58] @ u ''05'' @ [46] @ u ''500'')"
    by (simp add: convert_timecode_def parts ints fmt milliseconds_of_15)
  also have "u ''0'' @ [58] @ u ''01'' @ [58] @ u ''05'' @ [46] @ u ''500'' = u ''0:01:05.500''"
    by (simp add: u_def)
  finally show ?thesis .
qed

text \<open>
  C1. The documentation of phase02 (the docstring of \<^verbatim>\<open>convert_timecode\<close> and the sample
  output in the docstring of the module) gives \<^verbatim>\<open>"0:00:24.170"\<close> for \<^verbatim>\<open>"00;00;24;17"\<close>.
  The code does not: seventeen frames at 30 frames per second are 566 milliseconds, so
  \<open>convert_timecode\<close> returns \<^verbatim>\<open>"0:00:24.566"\<close> there. For \<^verbatim>\<open>"00;01;05;15"\<close> it returns
  \<^verbatim>\<open>"0:01:05.500"\<close>.
\<close>

theorem convert_timecode_examples:
  "convert_timecode (u ''00;00;24;17'') = Inr (u ''0:00:24.566'') \<and>
   convert_timecode (u ''00;00;24;17'') \<noteq> Inr (u ''0:00:24.170'') \<and>
   convert_timecode (u ''00;01;05;15'') = Inr (u ''0:01:05.500'')"
proof -
  have "u ''0:00:24.566'' \<noteq> u ''0:00:24.170''"
    by (simp add: u_def)
  with convert_timecode_24_17 convert_timecode_65_15 show ?thesis
    by simp
qed

text \<open>
  C5. An input that does not split into exactly four fields at \<^verbatim>\<open>';'\<close> is returned
  unchanged, and no exception is raised.
\<close>

theorem convert_timecode_passes_malformed_through:
  assumes "length (py_split semicolon s) \<noteq> 4"
  shows "convert_timecode s = Inr s"
  using assms by (simp add: convert_timecode_def Let_def)

theorem convert_timecode_passes_malformed_through_witness:
  "length (py_split semicolon (u ''00;00;24'')) \<noteq> 4 \<and>
   convert_timecode (u ''00;00;24'') = Inr (u ''00;00;24'')"
proof -
  have h: "length (py_split semicolon (u ''00;00;24'')) \<noteq> 4"
    by code_simp
  from convert_timecode_passes_malformed_through [OF h] h show ?thesis
    by simp
qed

text \<open>
  C10. On an input with exactly four fields, a field that \<^verbatim>\<open>int\<close> cannot read makes
  \<open>convert_timecode\<close> raise \<^verbatim>\<open>ValueError\<close>: the input is not returned unchanged. Only the
  number of fields is guarded, not their contents.
\<close>

theorem convert_timecode_raises_on_unparseable_field:
  assumes four: "length (py_split semicolon s) = 4"
    and bad: "\<exists>f \<in> set (py_split semicolon s). py_int f = None"
  shows "convert_timecode s = Inl ValueError \<and> convert_timecode s \<noteq> Inr s"
proof -
  from four obtain a b c d where parts: "py_split semicolon s = [a, b, c, d]"
    by (auto simp: length_Suc_conv numeral_eq_Suc)
  with bad have "py_int a = None \<or> py_int b = None \<or> py_int c = None \<or> py_int d = None"
    by auto
  with parts have "convert_timecode s = Inl ValueError"
    by (auto simp: convert_timecode_def Let_def split: option.splits)
  then show ?thesis by simp
qed

theorem convert_timecode_raises_on_unparseable_field_witness:
  "length (py_split semicolon (u ''aa;bb;cc;dd'')) = 4 \<and>
   (\<exists>f \<in> set (py_split semicolon (u ''aa;bb;cc;dd'')). py_int f = None) \<and>
   convert_timecode (u ''aa;bb;cc;dd'') = Inl ValueError"
proof -
  have four: "length (py_split semicolon (u ''aa;bb;cc;dd'')) = 4"
    by code_simp
  have bad: "\<exists>f \<in> set (py_split semicolon (u ''aa;bb;cc;dd'')). py_int f = None"
    by code_simp
  from convert_timecode_raises_on_unparseable_field [OF four bad] four bad
  show ?thesis by simp
qed

section \<open>The copies agree\<close>





section \<open>Properties of the string functions\<close>




lemma py_strip_idem_ends:
  assumes "s \<noteq> []" "\<not> py_isspace (hd s)" "\<not> py_isspace (last s)"
  shows "py_strip s = s"
proof -
  from assms obtain c cs where s: "s = c # cs" by (cases s) auto
  with assms have "dropWhile py_isspace s = s" by simp
  moreover from assms have "dropWhile py_isspace (rev s) = rev s"
    by (cases "rev s") (auto simp: last_rev [symmetric] hd_rev)
  ultimately show ?thesis by (simp add: py_strip_def)
qed

lemma py_in_sublist: "py_in sub s \<longleftrightarrow> sublist sub s"
  by (induction s) (auto simp: sublist_Cons_right)

lemma py_split1_not_in: "\<not> py_in sep s \<Longrightarrow> py_split1 sep s = [s]"
  by (induction sep s rule: py_split1.induct) auto


section \<open>Properties of \<open>parse_file\<close>\<close>
























section \<open>Properties of \<open>parse_sequence_file\<close>\<close>












section \<open>Properties of \<open>find_matching_dialogue\<close>\<close>
















lemma py_in_Nil: "py_in [] s"
  by (cases s) simp_all

lemma scan_index_empty_query:
  "scan_index data [] ((key, idx) # rest) =
     (case list_get data idx of Inl e \<Rightarrow> Inl e | Inr d \<Rightarrow> Inr (Some d))"
  by (simp add: fallback_match_def py_in_Nil)





end
